theory Spec2Isabelle
  imports Main
begin

section \<open>Provider validation of the authentication gateway (pkg/validation/providers.go)\<close>

text \<open>
  The Go file validates the configured identity providers and returns a list of
  problem messages. The embedding below follows it function by function. Go strings are
  byte sequences and are modelled as \<open>string\<close>; \<open>[]string\<close> is \<open>string list\<close>;
  the identifier registry \<open>map[string]struct{}\<close> is a partial map into \<open>unit\<close>.
\<close>

subsection \<open>Configuration data (package options, used through its fields)\<close>

text \<open>
  The structs \<open>options.Options\<close> and \<open>options.Provider\<close> are declared in package
  \<open>options\<close>. The records below hold the fields that providers.go reads, under the names
  it reads them by; a record carries the name of the field it is the type of where the
  name of the Go type is not visible (\<open>GoogleOptions\<close> for \<open>provider.GoogleConfig\<close>).
  \<open>len(...) >= 1\<close> of a slice is the length of the list, and a nil slice has length 0.
\<close>

(* Modelled from the spec: the type of AuthenticationConfig.Method and the constant
   options.PrivateKeyJWT are declared in package options, which is not part of the
   sources at hand. The spec describes the method as "among an enumeration including at
   least private-key-JWT and others"; the source only ever compares it with
   options.PrivateKeyJWT. *)
datatype AuthenticationMethod = PrivateKeyJWT | OtherMethod string

record AuthenticationOptions =
  Method :: AuthenticationMethod

record GoogleOptions =
  Groups :: "string list"
  AdminEmail :: string
  ServiceAccountJSON :: string
  UseApplicationDefaultCredentials :: bool

record MicrosoftEntraIDOptions =
  FederatedTokenAuth :: bool

record Provider =
  ID :: string
  ClientID :: string
  Type :: string
  AuthenticationConfig :: AuthenticationOptions
  GoogleConfig :: GoogleOptions
  MicrosoftEntraIDConfig :: MicrosoftEntraIDOptions

record Options =
  Providers :: "Provider list"
  SkipProviderButton :: bool

subsection \<open>The environment the validators read\<close>

text \<open>
  The validators call \<open>os.Stat\<close>, \<open>os.Getenv\<close> and \<open>os.ReadFile\<close>. The world they
  observe is a record of three read-only functions: whether \<open>os.Stat\<close> of a path returns
  a non-nil error, the value of an environment variable (Go returns the empty string for
  an unset variable), and whether \<open>os.ReadFile\<close> of a path returns a non-nil error.
  Every call is also recorded as an event, so that a statement can say which calls a
  validator makes.
\<close>

record World =
  stat_err :: "string \<Rightarrow> bool"
  getenv :: "string \<Rightarrow> string"
  readfile_err :: "string \<Rightarrow> bool"

datatype io_event = Stat string | Getenv string | ReadFile string

type_synonym registry = "string \<rightharpoonup> unit"

text \<open>
  \<open>validateAuthenticationConfig\<close> is called at line 50 and defined in another file of the
  package. Its body is not available, so the validators that call it take it as a
  parameter of the type the call site fixes: it receives \<open>provider.AuthenticationConfig\<close>
  and returns messages (and it may perform calls of its own).
\<close>

type_synonym auth_validator = "AuthenticationOptions \<Rightarrow> string list \<times> io_event list"

subsection \<open>Per-type validators\<close>

text \<open>\<open>validateGoogleConfig\<close>, lines 68-99.\<close>

definition validateGoogleConfig :: "World \<Rightarrow> Provider \<Rightarrow> string list \<times> io_event list" where
  "validateGoogleConfig w provider =
    (let hasGoogleGroups = (length (Groups (GoogleConfig provider)) \<ge> 1);
         hasAdminEmail = (AdminEmail (GoogleConfig provider) \<noteq> '''');
         hasSAJSON = (ServiceAccountJSON (GoogleConfig provider) \<noteq> '''');
         useADC = UseApplicationDefaultCredentials (GoogleConfig provider)
     in if \<not> hasGoogleGroups \<and> \<not> hasAdminEmail \<and> \<not> hasSAJSON \<and> \<not> useADC then ([], [])
        else
          let msgs1 = (if \<not> hasGoogleGroups then [''missing setting: google-group''] else []);
              msgs2 = msgs1 @ (if \<not> hasAdminEmail then [''missing setting: google-admin-email''] else []);
              err = stat_err w (ServiceAccountJSON (GoogleConfig provider));
              msgs3 = msgs2 @
                (if \<not> useADC then
                   (if \<not> hasSAJSON then
                      [''missing setting: google-service-account-json or google-use-application-default-credentials'']
                    else if err then
                      [''Google credentials file not found: '' @ ServiceAccountJSON (GoogleConfig provider)]
                    else [])
                 else if hasSAJSON then
                   [''invalid setting: can't use both google-service-account-json and google-use-application-default-credentials'']
                 else [])
          in (msgs3, [Stat (ServiceAccountJSON (GoogleConfig provider))]))"

text \<open>\<open>validateEntraConfig\<close>, lines 101-119.\<close>

definition validateEntraConfig :: "World \<Rightarrow> Provider \<Rightarrow> string list \<times> io_event list" where
  "validateEntraConfig w provider =
    (if FederatedTokenAuth (MicrosoftEntraIDConfig provider) then
       let federatedTokenPath = getenv w ''AZURE_FEDERATED_TOKEN_FILE''
       in if federatedTokenPath = '''' then
            ([''entra federated token authentication is enabled, but AZURE_FEDERATED_TOKEN_FILE variable is not set, check your workload identity configuration.''],
             [Getenv ''AZURE_FEDERATED_TOKEN_FILE''])
          else
            ((if readfile_err w federatedTokenPath
              then [''could not read entra federated token file''] else []),
             [Getenv ''AZURE_FEDERATED_TOKEN_FILE'', ReadFile federatedTokenPath])
     else ([], []))"

text \<open>\<open>validateGovLoginConfig\<close>, lines 121-129. It performs no call to the environment.\<close>

definition validateGovLoginConfig :: "Provider \<Rightarrow> string list" where
  "validateGovLoginConfig provider =
    (if Type provider = ''login.gov'' \<and> Method (AuthenticationConfig provider) \<noteq> PrivateKeyJWT
     then [''login.gov configuration not using private key jwt'']
     else [])"

subsection \<open>The provider validator\<close>

text \<open>The \<open>fmt.Sprintf\<close> of line 41: \<open>%s\<close> of a string inserts its bytes unchanged.\<close>

definition duplicate_id_msg :: "string \<Rightarrow> string" where
  "duplicate_id_msg pid =
     ''multiple providers found with id '' @ pid @ '': provider ids must be unique''"

text \<open>
  \<open>validateProvider\<close>, lines 32-66. The Go function mutates the map it is given; the
  model returns the updated map beside the messages and the events.
\<close>

definition validateProvider ::
  "auth_validator \<Rightarrow> World \<Rightarrow> Provider \<Rightarrow> registry \<Rightarrow> string list \<times> registry \<times> io_event list" where
  "validateProvider validateAuthenticationConfig w provider providerIDs =
    (let msgs1 = (if ID provider = ''''
                  then [''provider has empty id: ids are required for all providers''] else []);
         msgs2 = msgs1 @ (if providerIDs (ID provider) \<noteq> None
                          then [duplicate_id_msg (ID provider)] else []);
         providerIDs' = providerIDs(ID provider \<mapsto> ());
         msgs3 = msgs2 @ (if ClientID provider = ''''
                          then [''provider missing setting: client-id''] else []);
         auth = validateAuthenticationConfig (AuthenticationConfig provider);
         msgs4 = msgs3 @ fst auth;
         google = (if Type provider = ''google'' then validateGoogleConfig w provider else ([], []));
         msgs5 = msgs4 @ fst google;
         entra = (if Type provider = ''entra-id'' then validateEntraConfig w provider else ([], []));
         msgs6 = msgs5 @ fst entra;
         msgs7 = msgs6 @ (if Type provider = ''login.gov'' then validateGovLoginConfig provider else [])
     in (msgs7, providerIDs', snd auth @ snd google @ snd entra))"

subsection \<open>The aggregator\<close>

text \<open>
  The \<open>for ... range o.Providers\<close> loop of lines 25-27: the state is the message list, the
  registry and the events so far.
\<close>

primrec validateProviders_loop ::
  "auth_validator \<Rightarrow> World \<Rightarrow> Provider list \<Rightarrow> string list \<times> registry \<times> io_event list
     \<Rightarrow> string list \<times> registry \<times> io_event list" where
  "validateProviders_loop vac w [] st = st"
| "validateProviders_loop vac w (provider # rest) st =
     (case st of (msgs, providerIDs, evs) \<Rightarrow>
        (case validateProvider vac w provider providerIDs of (m, providerIDs', e) \<Rightarrow>
           validateProviders_loop vac w rest (msgs @ m, providerIDs', evs @ e)))"

text \<open>\<open>validateProviders\<close>, lines 12-30.\<close>

definition validateProviders :: "auth_validator \<Rightarrow> World \<Rightarrow> Options \<Rightarrow> string list \<times> io_event list" where
  "validateProviders vac w o' =
    (let msgs1 = (if length (Providers o') = 0
                  then [''at least one provider has to be defined''] else []);
         msgs2 = msgs1 @ (if SkipProviderButton o' \<and> length (Providers o') > 1
                          then [''SkipProviderButton and multiple providers are mutually exclusive'']
                          else []);
         providerIDs = Map.empty
     in case validateProviders_loop vac w (Providers o') (msgs2, providerIDs, []) of
          (msgs, ids, evs) \<Rightarrow> (msgs, evs))"

subsection \<open>Notions used to state the properties\<close>

text \<open>
  The registry after the providers \<open>ps\<close> have been processed, starting from \<open>ids\<close>:
  line 43 stores every provider's id, so the keys are those of \<open>ids\<close> and the ids of
  \<open>ps\<close>.
\<close>

definition registry_after :: "registry \<Rightarrow> Provider list \<Rightarrow> registry" where
  "registry_after ids ps = (\<lambda>k. if k \<in> ID ` set ps then Some () else ids k)"

text \<open>
  Concrete inputs for the instances below: the Go zero value of a provider, a world in
  which every probe fails and no variable is set, a world in which the token variable is
  set and the read fails, and an authentication validator that returns nothing.
\<close>

definition zero_provider :: Provider where
  "zero_provider =
     \<lparr>ID = '''', ClientID = '''', Type = '''',
      AuthenticationConfig = \<lparr>Method = OtherMethod ''''\<rparr>,
      GoogleConfig = \<lparr>Groups = [], AdminEmail = '''', ServiceAccountJSON = '''',
                      UseApplicationDefaultCredentials = False\<rparr>,
      MicrosoftEntraIDConfig = \<lparr>FederatedTokenAuth = False\<rparr>\<rparr>"

definition bare_world :: World where
  "bare_world = \<lparr>stat_err = (\<lambda>path. True), getenv = (\<lambda>name. ''''), readfile_err = (\<lambda>path. True)\<rparr>"

definition token_world :: World where
  "token_world =
     \<lparr>stat_err = (\<lambda>path. True),
      getenv = (\<lambda>name. if name = ''AZURE_FEDERATED_TOKEN_FILE'' then ''/var/run/token'' else ''''),
      readfile_err = (\<lambda>path. True)\<rparr>"

definition no_auth_messages :: auth_validator where
  "no_auth_messages = (\<lambda>ac. ([], []))"

section \<open>Facts about the provider validator\<close>

lemma validateProvider_registry:
  "fst (snd (validateProvider vac w p ids)) = ids(ID p \<mapsto> ())"
  by (simp add: validateProvider_def Let_def)

lemma validateProvider_msgs:
  "fst (validateProvider vac w p ids) =
     (if ID p = '''' then [''provider has empty id: ids are required for all providers''] else [])
     @ (if ids (ID p) \<noteq> None then [duplicate_id_msg (ID p)] else [])
     @ (if ClientID p = '''' then [''provider missing setting: client-id''] else [])
     @ fst (vac (AuthenticationConfig p))
     @ (if Type p = ''google'' then fst (validateGoogleConfig w p) else [])
     @ (if Type p = ''entra-id'' then fst (validateEntraConfig w p) else [])
     @ (if Type p = ''login.gov'' then validateGovLoginConfig p else [])"
  by (simp add: validateProvider_def Let_def)

lemma duplicate_id_msg_inj: "duplicate_id_msg i = duplicate_id_msg j \<longleftrightarrow> i = j"
  by (simp add: duplicate_id_msg_def)

lemma dup_not_google: "duplicate_id_msg i \<notin> set (fst (validateGoogleConfig w p))"
  by (simp add: validateGoogleConfig_def Let_def duplicate_id_msg_def)

lemma dup_not_entra: "duplicate_id_msg i \<notin> set (fst (validateEntraConfig w p))"
  by (simp add: validateEntraConfig_def Let_def duplicate_id_msg_def)

lemma dup_not_gov: "duplicate_id_msg i \<notin> set (validateGovLoginConfig p)"
  by (simp add: validateGovLoginConfig_def Let_def duplicate_id_msg_def)

lemma count_dup_validateProvider:
  "count_list (fst (validateProvider vac w p ids)) (duplicate_id_msg i) =
     (if ID p = i \<and> ids i \<noteq> None then 1 else 0)
     + count_list (fst (vac (AuthenticationConfig p))) (duplicate_id_msg i)"
  using dup_not_google[of i w p] dup_not_entra[of i w p] dup_not_gov[of i p]
  by (auto simp add: validateProvider_msgs duplicate_id_msg_inj count_list_0_iff)
     (simp_all add: duplicate_id_msg_def)

lemma empty_id_not_google:
  "''provider has empty id: ids are required for all providers''
     \<notin> set (fst (validateGoogleConfig w p))"
  by (simp add: validateGoogleConfig_def Let_def)

lemma empty_id_not_entra:
  "''provider has empty id: ids are required for all providers''
     \<notin> set (fst (validateEntraConfig w p))"
  by (simp add: validateEntraConfig_def Let_def)

lemma empty_id_not_gov:
  "''provider has empty id: ids are required for all providers''
     \<notin> set (validateGovLoginConfig p)"
  by (simp add: validateGovLoginConfig_def)

lemma empty_id_not_dup:
  "duplicate_id_msg i \<noteq> ''provider has empty id: ids are required for all providers''"
  by (simp add: duplicate_id_msg_def)

lemma count_empty_id_validateProvider:
  "count_list (fst (validateProvider vac w p ids))
       ''provider has empty id: ids are required for all providers'' =
     (if ID p = '''' then 1 else 0)
     + count_list (fst (vac (AuthenticationConfig p)))
         ''provider has empty id: ids are required for all providers''"
  using empty_id_not_google[of w p] empty_id_not_entra[of w p] empty_id_not_gov[of p]
  by (simp add: validateProvider_msgs count_list_0_iff empty_id_not_dup empty_id_not_dup[symmetric])

lemma skip_not_google:
  "''SkipProviderButton and multiple providers are mutually exclusive''
     \<notin> set (fst (validateGoogleConfig w p))"
  by (simp add: validateGoogleConfig_def Let_def)

lemma skip_not_entra:
  "''SkipProviderButton and multiple providers are mutually exclusive''
     \<notin> set (fst (validateEntraConfig w p))"
  by (simp add: validateEntraConfig_def Let_def)

lemma skip_not_gov:
  "''SkipProviderButton and multiple providers are mutually exclusive''
     \<notin> set (validateGovLoginConfig p)"
  by (simp add: validateGovLoginConfig_def)

lemma skip_not_validateProvider:
  assumes "''SkipProviderButton and multiple providers are mutually exclusive''
             \<notin> set (fst (vac (AuthenticationConfig p)))"
  shows "''SkipProviderButton and multiple providers are mutually exclusive''
           \<notin> set (fst (validateProvider vac w p ids))"
  using assms skip_not_google[of w p] skip_not_entra[of w p] skip_not_gov[of p]
  by (simp add: validateProvider_msgs duplicate_id_msg_def)

section \<open>Facts about the loop\<close>

lemma registry_after_Nil: "registry_after ids [] = ids"
  by (simp add: registry_after_def)

lemma registry_after_Cons:
  "registry_after ids (p # ps) = registry_after (ids(ID p \<mapsto> ())) ps"
  by (rule ext) (simp add: registry_after_def)

lemma loop_Cons:
  "validateProviders_loop vac w (p # ps) (msgs, ids, evs) =
     validateProviders_loop vac w ps
       (msgs @ fst (validateProvider vac w p ids), ids(ID p \<mapsto> ()),
        evs @ snd (snd (validateProvider vac w p ids)))"
  using validateProvider_registry[of vac w p ids]
  by (simp add: split_beta)

lemma loop_registry:
  "fst (snd (validateProviders_loop vac w ps (msgs, ids, evs))) = registry_after ids ps"
proof (induction ps arbitrary: msgs ids evs)
  case Nil
  show ?case by (simp add: registry_after_Nil)
next
  case (Cons p ps)
  show ?case
    unfolding loop_Cons Cons.IH registry_after_Cons ..
qed

lemma upt_shift: "map f [0..<Suc n] = f 0 # map (\<lambda>k. f (Suc k)) [0..<n]"
  by (simp add: upt_conv_Cons map_Suc_upt[symmetric] del: upt_Suc)

lemma loop_msgs:
  "fst (validateProviders_loop vac w ps (msgs, ids, evs)) =
     msgs @ concat (map (\<lambda>n. fst (validateProvider vac w (ps ! n) (registry_after ids (take n ps))))
                        [0..<length ps])"
proof (induction ps arbitrary: msgs ids evs)
  case Nil
  show ?case by simp
next
  case (Cons p ps)
  show ?case
    unfolding loop_Cons Cons.IH
    by (simp add: upt_shift registry_after_Nil registry_after_Cons del: upt_Suc)
qed

lemma loop_events:
  "snd (snd (validateProviders_loop vac w ps (msgs, ids, evs))) =
     evs @ concat (map (\<lambda>n. snd (snd (validateProvider vac w (ps ! n) (registry_after ids (take n ps)))))
                        [0..<length ps])"
proof (induction ps arbitrary: msgs ids evs)
  case Nil
  show ?case by simp
next
  case (Cons p ps)
  show ?case
    unfolding loop_Cons Cons.IH
    by (simp add: upt_shift registry_after_Nil registry_after_Cons del: upt_Suc)
qed

lemma loop_count_dup:
  "count_list (fst (validateProviders_loop vac w ps (msgs, ids, evs))) (duplicate_id_msg i) =
     count_list msgs (duplicate_id_msg i)
     + (if ids i \<noteq> None then length (filter (\<lambda>p. ID p = i) ps)
        else length (filter (\<lambda>p. ID p = i) ps) - 1)
     + sum_list (map (\<lambda>p. count_list (fst (vac (AuthenticationConfig p))) (duplicate_id_msg i)) ps)"
proof (induction ps arbitrary: msgs ids evs)
  case Nil
  show ?case by simp
next
  case (Cons p ps)
  show ?case
    unfolding loop_Cons Cons.IH
    by (simp add: count_dup_validateProvider)
qed

lemma validateProviders_msgs:
  "fst (validateProviders vac w o') =
     (if Providers o' = [] then [''at least one provider has to be defined''] else [])
     @ (if SkipProviderButton o' \<and> length (Providers o') > 1
        then [''SkipProviderButton and multiple providers are mutually exclusive''] else [])
     @ concat (map (\<lambda>n. fst (validateProvider vac w (Providers o' ! n)
                               (registry_after Map.empty (take n (Providers o')))))
                   [0..<length (Providers o')])"
proof -
  have "fst (validateProviders vac w o') =
      fst (validateProviders_loop vac w (Providers o')
        ((if length (Providers o') = 0 then [''at least one provider has to be defined''] else [])
         @ (if SkipProviderButton o' \<and> length (Providers o') > 1
            then [''SkipProviderButton and multiple providers are mutually exclusive''] else []),
         Map.empty, []))"
    by (simp add: validateProviders_def Let_def split_beta)
  then show ?thesis
    unfolding loop_msgs by simp
qed

lemma validateProviders_events:
  "snd (validateProviders vac w o') =
     concat (map (\<lambda>n. snd (snd (validateProvider vac w (Providers o' ! n)
                               (registry_after Map.empty (take n (Providers o'))))))
                 [0..<length (Providers o')])"
proof -
  have "snd (validateProviders vac w o') =
      snd (snd (validateProviders_loop vac w (Providers o')
        ((if length (Providers o') = 0 then [''at least one provider has to be defined''] else [])
         @ (if SkipProviderButton o' \<and> length (Providers o') > 1
            then [''SkipProviderButton and multiple providers are mutually exclusive''] else []),
         Map.empty, [])))"
    by (simp add: validateProviders_def Let_def split_beta)
  then show ?thesis
    unfolding loop_events by simp
qed

lemma dup_not_header:
  "duplicate_id_msg i \<noteq> ''at least one provider has to be defined''"
  "duplicate_id_msg i \<noteq> ''SkipProviderButton and multiple providers are mutually exclusive''"
  by (simp_all add: duplicate_id_msg_def)

lemma validateProviders_count_dup:
  "count_list (fst (validateProviders vac w o')) (duplicate_id_msg i) =
     (length (filter (\<lambda>p. ID p = i) (Providers o')) - 1)
     + sum_list (map (\<lambda>p. count_list (fst (vac (AuthenticationConfig p))) (duplicate_id_msg i))
                     (Providers o'))"
proof -
  have e: "fst (validateProviders vac w o') =
      fst (validateProviders_loop vac w (Providers o')
        ((if length (Providers o') = 0 then [''at least one provider has to be defined''] else [])
         @ (if SkipProviderButton o' \<and> length (Providers o') > 1
            then [''SkipProviderButton and multiple providers are mutually exclusive''] else []),
         Map.empty, []))"
    by (simp add: validateProviders_def Let_def split_beta)
  show ?thesis
    unfolding e loop_count_dup
    by (simp add: dup_not_header dup_not_header[symmetric])
qed

lemma loop_count_empty_id:
  "count_list (fst (validateProviders_loop vac w ps (msgs, ids, evs)))
       ''provider has empty id: ids are required for all providers'' =
     count_list msgs ''provider has empty id: ids are required for all providers''
     + length (filter (\<lambda>p. ID p = '''') ps)
     + sum_list (map (\<lambda>p. count_list (fst (vac (AuthenticationConfig p)))
                        ''provider has empty id: ids are required for all providers'') ps)"
proof (induction ps arbitrary: msgs ids evs)
  case Nil
  show ?case by simp
next
  case (Cons p ps)
  show ?case
    unfolding loop_Cons Cons.IH
    by (simp add: count_empty_id_validateProvider)
qed

lemma validateProviders_count_empty_id:
  "count_list (fst (validateProviders vac w o'))
       ''provider has empty id: ids are required for all providers'' =
     length (filter (\<lambda>p. ID p = '''') (Providers o'))
     + sum_list (map (\<lambda>p. count_list (fst (vac (AuthenticationConfig p)))
                        ''provider has empty id: ids are required for all providers'')
                     (Providers o'))"
proof -
  have e: "fst (validateProviders vac w o') =
      fst (validateProviders_loop vac w (Providers o')
        ((if length (Providers o') = 0 then [''at least one provider has to be defined''] else [])
         @ (if SkipProviderButton o' \<and> length (Providers o') > 1
            then [''SkipProviderButton and multiple providers are mutually exclusive''] else []),
         Map.empty, []))"
    by (simp add: validateProviders_def Let_def split_beta)
  show ?thesis
    unfolding e loop_count_empty_id by simp
qed

lemma registry_after_empty_take:
  assumes "n < length ps"
  shows "registry_after Map.empty (take n ps) i \<noteq> None \<longleftrightarrow> (\<exists>j<n. ID (ps ! j) = i)"
proof -
  have "set (take n ps) = (\<lambda>j. ps ! j) ` {0..<n}"
    using assms by (simp add: nth_image)
  then show ?thesis
    by (auto simp add: registry_after_def)
qed

section \<open>Properties\<close>

text \<open>
  C1. Duplicate ids. Let \<open>k \<ge> 1\<close> be the number of providers with id \<open>i\<close>. Provided the
  authentication validator (whose body is elsewhere) does not itself return the
  duplicate-id message of \<open>i\<close>, the messages of \<open>validateProviders\<close> contain that
  message exactly \<open>k - 1\<close> times. A provider whose id is not yet in the registry gets no
  duplicate-id message, one whose id is already there gets exactly one, and in both cases
  the registry afterwards holds the id; after the loop the registry holds the id of every
  provider.
\<close>

theorem duplicate_id_messages:
  assumes "\<forall>ac. duplicate_id_msg i \<notin> set (fst (vac ac))"
      and "1 \<le> length (filter (\<lambda>p. ID p = i) (Providers o'))"
  shows "count_list (fst (validateProviders vac w o')) (duplicate_id_msg i)
           = length (filter (\<lambda>p. ID p = i) (Providers o')) - 1
       \<and> (ID p = i \<and> ids i = None \<longrightarrow>
            duplicate_id_msg i \<notin> set (fst (validateProvider vac w p ids)))
       \<and> (ID p = i \<and> ids i \<noteq> None \<longrightarrow>
            count_list (fst (validateProvider vac w p ids)) (duplicate_id_msg i) = 1)
       \<and> fst (snd (validateProvider vac w p ids)) = ids(ID p \<mapsto> ())
       \<and> fst (snd (validateProviders_loop vac w (Providers o') (msgs, Map.empty, evs)))
           = registry_after Map.empty (Providers o')"
proof -
  have z: "count_list (fst (vac ac)) (duplicate_id_msg i) = 0" for ac
    using assms(1) by (simp add: count_list_0_iff)
  have a: "count_list (fst (validateProviders vac w o')) (duplicate_id_msg i)
           = length (filter (\<lambda>p. ID p = i) (Providers o')) - 1"
    unfolding validateProviders_count_dup by (simp add: z)
  have b: "count_list (fst (validateProvider vac w p ids)) (duplicate_id_msg i)
           = (if ID p = i \<and> ids i \<noteq> None then 1 else 0)"
    unfolding count_dup_validateProvider by (simp add: z)
  have c: "ID p = i \<and> ids i = None \<longrightarrow>
            duplicate_id_msg i \<notin> set (fst (validateProvider vac w p ids))"
    using b by (simp add: count_list_0_iff[symmetric])
  show ?thesis
    using a b c validateProvider_registry[of vac w p ids]
      loop_registry[of vac w "Providers o'" msgs Map.empty evs]
    by simp
qed

theorem duplicate_id_messages_witness:
  "count_list
     (fst (validateProviders no_auth_messages bare_world
        \<lparr>Providers = [zero_provider\<lparr>ID := ''a'', ClientID := ''x''\<rparr>,
                      zero_provider\<lparr>ID := ''b'', ClientID := ''y''\<rparr>,
                      zero_provider\<lparr>ID := ''a'', ClientID := ''z''\<rparr>,
                      zero_provider\<lparr>ID := ''a'', ClientID := ''u''\<rparr>],
         SkipProviderButton = False\<rparr>))
     (duplicate_id_msg ''a'') = 2
   \<and> duplicate_id_msg ''a'' \<notin> set (fst (validateProvider no_auth_messages bare_world
        (zero_provider\<lparr>ID := ''a'', ClientID := ''x''\<rparr>) Map.empty))
   \<and> count_list (fst (validateProvider no_auth_messages bare_world
        (zero_provider\<lparr>ID := ''a'', ClientID := ''z''\<rparr>) [''a'' \<mapsto> (), ''b'' \<mapsto> ()]))
        (duplicate_id_msg ''a'') = 1"
  using duplicate_id_messages[of "''a''" no_auth_messages
      "\<lparr>Providers = [zero_provider\<lparr>ID := ''a'', ClientID := ''x''\<rparr>,
                      zero_provider\<lparr>ID := ''b'', ClientID := ''y''\<rparr>,
                      zero_provider\<lparr>ID := ''a'', ClientID := ''z''\<rparr>,
                      zero_provider\<lparr>ID := ''a'', ClientID := ''u''\<rparr>],
         SkipProviderButton = False\<rparr>" bare_world
      "zero_provider\<lparr>ID := ''a'', ClientID := ''x''\<rparr>" Map.empty]
    duplicate_id_messages[of "''a''" no_auth_messages
      "\<lparr>Providers = [zero_provider\<lparr>ID := ''a'', ClientID := ''x''\<rparr>,
                      zero_provider\<lparr>ID := ''b'', ClientID := ''y''\<rparr>,
                      zero_provider\<lparr>ID := ''a'', ClientID := ''z''\<rparr>,
                      zero_provider\<lparr>ID := ''a'', ClientID := ''u''\<rparr>],
         SkipProviderButton = False\<rparr>" bare_world
      "zero_provider\<lparr>ID := ''a'', ClientID := ''z''\<rparr>" "[''a'' \<mapsto> (), ''b'' \<mapsto> ()]"]
  by (simp add: no_auth_messages_def zero_provider_def)

text \<open>
  C2. Credential path set, existence probe failing. With
  \<open>UseApplicationDefaultCredentials\<close> false the credential check of lines 87-96 adds
  exactly the message "Google credentials file not found: " followed by the path; with the
  flag true it adds the message that the two settings cannot be combined, and not the
  file-not-found one. The group and admin-email checks of lines 80-85 run before it, so a
  missing group list or admin email puts their messages first: the credential message is
  the whole result only when both are set.
\<close>

theorem google_unreachable_credentials_file:
  assumes "ServiceAccountJSON (GoogleConfig p) \<noteq> ''''"
      and "stat_err w (ServiceAccountJSON (GoogleConfig p))"
  shows "fst (validateGoogleConfig w p) =
           (if Groups (GoogleConfig p) = [] then [''missing setting: google-group''] else [])
           @ (if AdminEmail (GoogleConfig p) = '''' then [''missing setting: google-admin-email''] else [])
           @ (if UseApplicationDefaultCredentials (GoogleConfig p)
              then [''invalid setting: can't use both google-service-account-json and google-use-application-default-credentials'']
              else [''Google credentials file not found: '' @ ServiceAccountJSON (GoogleConfig p)])"
  using assms by (cases "Groups (GoogleConfig p)") (simp_all add: validateGoogleConfig_def Let_def)

theorem google_unreachable_credentials_file_witness:
  "fst (validateGoogleConfig bare_world
     (zero_provider\<lparr>Type := ''google'',
        GoogleConfig := \<lparr>Groups = [''admins''], AdminEmail = ''e@x.com'',
          ServiceAccountJSON = ''/nonexistent'', UseApplicationDefaultCredentials = False\<rparr>\<rparr>))
     = [''Google credentials file not found: /nonexistent'']
   \<and> fst (validateGoogleConfig bare_world
     (zero_provider\<lparr>Type := ''google'',
        GoogleConfig := \<lparr>Groups = [''admins''], AdminEmail = ''e@x.com'',
          ServiceAccountJSON = ''/nonexistent'', UseApplicationDefaultCredentials = True\<rparr>\<rparr>))
     = [''invalid setting: can't use both google-service-account-json and google-use-application-default-credentials'']"
  using google_unreachable_credentials_file[of
      "zero_provider\<lparr>Type := ''google'',
        GoogleConfig := \<lparr>Groups = [''admins''], AdminEmail = ''e@x.com'',
          ServiceAccountJSON = ''/nonexistent'', UseApplicationDefaultCredentials = False\<rparr>\<rparr>" bare_world]
    google_unreachable_credentials_file[of
      "zero_provider\<lparr>Type := ''google'',
        GoogleConfig := \<lparr>Groups = [''admins''], AdminEmail = ''e@x.com'',
          ServiceAccountJSON = ''/nonexistent'', UseApplicationDefaultCredentials = True\<rparr>\<rparr>" bare_world]
  by (simp add: bare_world_def)

text \<open>
  The validator's result is not always the file-not-found message alone: a provider with
  only the credential path set gets three messages.
\<close>

theorem google_only_credentials_path_counterexample:
  "ServiceAccountJSON (GoogleConfig (zero_provider\<lparr>Type := ''google'',
        GoogleConfig := \<lparr>Groups = [], AdminEmail = '''',
          ServiceAccountJSON = ''/nonexistent'', UseApplicationDefaultCredentials = False\<rparr>\<rparr>)) \<noteq> ''''
   \<and> stat_err bare_world ''/nonexistent''
   \<and> fst (validateGoogleConfig bare_world
     (zero_provider\<lparr>Type := ''google'',
        GoogleConfig := \<lparr>Groups = [], AdminEmail = '''',
          ServiceAccountJSON = ''/nonexistent'', UseApplicationDefaultCredentials = False\<rparr>\<rparr>))
     = [''missing setting: google-group'', ''missing setting: google-admin-email'',
        ''Google credentials file not found: /nonexistent'']
   \<and> fst (validateGoogleConfig bare_world
     (zero_provider\<lparr>Type := ''google'',
        GoogleConfig := \<lparr>Groups = [], AdminEmail = '''',
          ServiceAccountJSON = ''/nonexistent'', UseApplicationDefaultCredentials = False\<rparr>\<rparr>))
     \<noteq> [''Google credentials file not found: /nonexistent'']"
  by (simp add: validateGoogleConfig_def Let_def bare_world_def zero_provider_def)

text \<open>
  C3. The authentication validator is called with \<open>provider.AuthenticationConfig\<close> only
  (line 50), for every provider, and its messages are appended between the client-id
  check and the type-specific checks. Whatever its body is, it cannot tell a
  \<open>login.gov\<close> provider from another one with the same authentication settings. The
  requirement of private-key-JWT for \<open>login.gov\<close> comes from the last check of
  \<open>validateProvider\<close>, the per-type validator.
\<close>

theorem auth_validator_sees_only_authentication_config:
  "fst (validateProvider vac w p ids) =
     (if ID p = '''' then [''provider has empty id: ids are required for all providers''] else [])
     @ (if ids (ID p) \<noteq> None then [duplicate_id_msg (ID p)] else [])
     @ (if ClientID p = '''' then [''provider missing setting: client-id''] else [])
     @ fst (vac (AuthenticationConfig p))
     @ (if Type p = ''google'' then fst (validateGoogleConfig w p) else [])
     @ (if Type p = ''entra-id'' then fst (validateEntraConfig w p) else [])
     @ (if Type p = ''login.gov'' \<and> Method (AuthenticationConfig p) \<noteq> PrivateKeyJWT
        then [''login.gov configuration not using private key jwt''] else [])"
  by (simp add: validateProvider_msgs validateGovLoginConfig_def)

text \<open>
  No authentication validator, called as line 50 calls it, can both add a message for a
  \<open>login.gov\<close> provider whose method is not private-key-JWT and add nothing for a provider
  of another type with the same method: with an id, a client id and a fresh registry, the
  first provider's result would differ from the per-type message alone and the second's
  would be empty.
\<close>

theorem auth_validator_by_type_counterexample:
  "Type (zero_provider\<lparr>ID := ''a'', ClientID := ''x'', Type := ''login.gov''\<rparr>) = ''login.gov''
   \<and> Method (AuthenticationConfig (zero_provider\<lparr>ID := ''a'', ClientID := ''x'', Type := ''login.gov''\<rparr>))
       \<noteq> PrivateKeyJWT
   \<and> Type (zero_provider\<lparr>ID := ''a'', ClientID := ''x'', Type := ''oidc''\<rparr>) \<noteq> ''login.gov''
   \<and> \<not> (\<exists>vac.
         fst (validateProvider vac bare_world
                (zero_provider\<lparr>ID := ''a'', ClientID := ''x'', Type := ''login.gov''\<rparr>) Map.empty)
           \<noteq> [''login.gov configuration not using private key jwt'']
         \<and> fst (validateProvider vac bare_world
                (zero_provider\<lparr>ID := ''a'', ClientID := ''x'', Type := ''oidc''\<rparr>) Map.empty) = [])"
  by (simp add: validateProvider_msgs validateGovLoginConfig_def zero_provider_def)

text \<open>
  C4. \<open>validateGoogleConfig\<close> on a provider with no groups, no admin email, no credential
  path and the default-credentials flag false returns no message (and probes nothing).
  With only the group list non-empty it returns the missing-admin-email message and the
  missing-credential-strategy message, in this order, and no missing-group message.
\<close>

theorem google_unconfigured_and_groups_only:
  "(Groups (GoogleConfig p) = [] \<and> AdminEmail (GoogleConfig p) = ''''
      \<and> ServiceAccountJSON (GoogleConfig p) = ''''
      \<and> \<not> UseApplicationDefaultCredentials (GoogleConfig p)
      \<longrightarrow> validateGoogleConfig w p = ([], []))
   \<and> (Groups (GoogleConfig p) \<noteq> [] \<and> AdminEmail (GoogleConfig p) = ''''
      \<and> ServiceAccountJSON (GoogleConfig p) = ''''
      \<and> \<not> UseApplicationDefaultCredentials (GoogleConfig p)
      \<longrightarrow> fst (validateGoogleConfig w p) =
            [''missing setting: google-admin-email'',
             ''missing setting: google-service-account-json or google-use-application-default-credentials''])"
  by (cases "Groups (GoogleConfig p)") (simp_all add: validateGoogleConfig_def Let_def)

theorem google_unconfigured_and_groups_only_witness:
  "validateGoogleConfig bare_world (zero_provider\<lparr>Type := ''google''\<rparr>) = ([], [])
   \<and> fst (validateGoogleConfig bare_world
        (zero_provider\<lparr>Type := ''google'',
           GoogleConfig := \<lparr>Groups = [''admins''], AdminEmail = '''',
             ServiceAccountJSON = '''', UseApplicationDefaultCredentials = False\<rparr>\<rparr>))
      = [''missing setting: google-admin-email'',
         ''missing setting: google-service-account-json or google-use-application-default-credentials'']"
  using google_unconfigured_and_groups_only[of "zero_provider\<lparr>Type := ''google''\<rparr>" bare_world]
    google_unconfigured_and_groups_only[of
        "zero_provider\<lparr>Type := ''google'',
           GoogleConfig := \<lparr>Groups = [''admins''], AdminEmail = '''',
             ServiceAccountJSON = '''', UseApplicationDefaultCredentials = False\<rparr>\<rparr>" bare_world]
  by (simp add: zero_provider_def)

text \<open>
  C5. \<open>validateEntraConfig\<close>. With \<open>FederatedTokenAuth\<close> true and the variable
  \<open>AZURE_FEDERATED_TOKEN_FILE\<close> unset or empty, the result is the single
  workload-identity message and the only call made is the \<open>os.Getenv\<close>: no file is read.
  With the variable set and the read failing, the result is the single message
  "could not read entra federated token file": the failure is returned as a message of the
  list, which is all the function returns. With \<open>FederatedTokenAuth\<close> false there is no
  message and no call.
\<close>

theorem entra_federated_token_checks:
  "(FederatedTokenAuth (MicrosoftEntraIDConfig p) \<and> getenv w ''AZURE_FEDERATED_TOKEN_FILE'' = ''''
      \<longrightarrow> validateEntraConfig w p =
            ([''entra federated token authentication is enabled, but AZURE_FEDERATED_TOKEN_FILE variable is not set, check your workload identity configuration.''],
             [Getenv ''AZURE_FEDERATED_TOKEN_FILE'']))
   \<and> (FederatedTokenAuth (MicrosoftEntraIDConfig p) \<and> getenv w ''AZURE_FEDERATED_TOKEN_FILE'' \<noteq> ''''
        \<and> readfile_err w (getenv w ''AZURE_FEDERATED_TOKEN_FILE'')
      \<longrightarrow> validateEntraConfig w p =
            ([''could not read entra federated token file''],
             [Getenv ''AZURE_FEDERATED_TOKEN_FILE'', ReadFile (getenv w ''AZURE_FEDERATED_TOKEN_FILE'')]))
   \<and> (\<not> FederatedTokenAuth (MicrosoftEntraIDConfig p) \<longrightarrow> validateEntraConfig w p = ([], []))"
  by (simp add: validateEntraConfig_def Let_def)

theorem entra_federated_token_checks_witness:
  "validateEntraConfig bare_world
      (zero_provider\<lparr>Type := ''entra-id'', MicrosoftEntraIDConfig := \<lparr>FederatedTokenAuth = True\<rparr>\<rparr>)
     = ([''entra federated token authentication is enabled, but AZURE_FEDERATED_TOKEN_FILE variable is not set, check your workload identity configuration.''],
        [Getenv ''AZURE_FEDERATED_TOKEN_FILE''])
   \<and> validateEntraConfig token_world
      (zero_provider\<lparr>Type := ''entra-id'', MicrosoftEntraIDConfig := \<lparr>FederatedTokenAuth = True\<rparr>\<rparr>)
     = ([''could not read entra federated token file''],
        [Getenv ''AZURE_FEDERATED_TOKEN_FILE'', ReadFile ''/var/run/token''])
   \<and> validateEntraConfig token_world (zero_provider\<lparr>Type := ''entra-id''\<rparr>) = ([], [])"
  using entra_federated_token_checks[of
        "zero_provider\<lparr>Type := ''entra-id'', MicrosoftEntraIDConfig := \<lparr>FederatedTokenAuth = True\<rparr>\<rparr>"
        bare_world]
    entra_federated_token_checks[of
        "zero_provider\<lparr>Type := ''entra-id'', MicrosoftEntraIDConfig := \<lparr>FederatedTokenAuth = True\<rparr>\<rparr>"
        token_world]
    entra_federated_token_checks[of "zero_provider\<lparr>Type := ''entra-id''\<rparr>" token_world]
  by (simp add: zero_provider_def bare_world_def token_world_def)

text \<open>
  C6. For a provider of type \<open>login.gov\<close>, \<open>validateGovLoginConfig\<close> returns the
  message "login.gov configuration not using private key jwt" exactly when the
  authentication method is not private-key-JWT, and no message when it is.
\<close>

theorem validateGovLoginConfig_login_gov:
  "Type p = ''login.gov'' \<Longrightarrow>
     validateGovLoginConfig p =
       (if Method (AuthenticationConfig p) = PrivateKeyJWT then []
        else [''login.gov configuration not using private key jwt''])"
  by (simp add: validateGovLoginConfig_def)

theorem validateGovLoginConfig_login_gov_witness:
  "validateGovLoginConfig (zero_provider\<lparr>Type := ''login.gov''\<rparr>)
     = [''login.gov configuration not using private key jwt'']
   \<and> validateGovLoginConfig
       (zero_provider\<lparr>Type := ''login.gov'', AuthenticationConfig := \<lparr>Method = PrivateKeyJWT\<rparr>\<rparr>) = []"
  using validateGovLoginConfig_login_gov[of "zero_provider\<lparr>Type := ''login.gov''\<rparr>"]
    validateGovLoginConfig_login_gov[of
      "zero_provider\<lparr>Type := ''login.gov'', AuthenticationConfig := \<lparr>Method = PrivateKeyJWT\<rparr>\<rparr>"]
  by (simp add: zero_provider_def)

text \<open>
  C7. \<open>validateProviders\<close> is a total function from the options (and the world it reads)
  to a message list: it has no error result, and the options are only read, as in the
  source, where nothing is assigned to \<open>o\<close> or to a provider. Its messages are the two
  list-level messages that apply, followed by the messages of \<open>validateProvider\<close> for the
  provider at index 0, 1, ... up to the last, each run with the registry holding the ids
  of the providers before it; no provider is skipped, whatever the earlier ones returned.
  The calls to the environment are recorded in the same order.
\<close>

theorem validateProviders_checks_every_provider_in_order:
  "validateProviders vac w o' =
     ((if Providers o' = [] then [''at least one provider has to be defined''] else [])
      @ (if SkipProviderButton o' \<and> length (Providers o') > 1
         then [''SkipProviderButton and multiple providers are mutually exclusive''] else [])
      @ concat (map (\<lambda>n. fst (validateProvider vac w (Providers o' ! n)
                                (registry_after Map.empty (take n (Providers o')))))
                    [0..<length (Providers o')]),
      concat (map (\<lambda>n. snd (snd (validateProvider vac w (Providers o' ! n)
                                (registry_after Map.empty (take n (Providers o'))))))
                    [0..<length (Providers o')]))"
  using validateProviders_msgs[of vac w o'] validateProviders_events[of vac w o']
  by (simp add: prod_eq_iff)

text \<open>
  C8. With no provider, \<open>validateProviders\<close> returns exactly the message
  "at least one provider has to be defined" and makes no call: the loop body never runs,
  so the result does not depend on the authentication validator or on the world.
\<close>

theorem validateProviders_no_providers:
  "Providers o' = [] \<Longrightarrow>
     validateProviders vac w o' = ([''at least one provider has to be defined''], [])"
  by (simp add: validateProviders_def)

theorem validateProviders_no_providers_witness:
  "validateProviders no_auth_messages bare_world \<lparr>Providers = [], SkipProviderButton = True\<rparr>
     = ([''at least one provider has to be defined''], [])"
  using validateProviders_no_providers[of "\<lparr>Providers = [], SkipProviderButton = True\<rparr>"
      no_auth_messages bare_world]
  by simp

text \<open>
  C9. With \<open>SkipProviderButton\<close> true and more than one provider, the result contains
  "SkipProviderButton and multiple providers are mutually exclusive", whatever the
  providers are. With the flag true and at most one provider, the result does not contain
  it (provided the authentication validator, whose body is elsewhere, does not return
  this very message).
\<close>

theorem skip_button_with_several_providers:
  "(SkipProviderButton o' \<and> length (Providers o') > 1 \<longrightarrow>
      ''SkipProviderButton and multiple providers are mutually exclusive''
        \<in> set (fst (validateProviders vac w o')))
   \<and> (SkipProviderButton o' \<and> length (Providers o') \<le> 1
       \<and> (\<forall>ac. ''SkipProviderButton and multiple providers are mutually exclusive''
                  \<notin> set (fst (vac ac))) \<longrightarrow>
      ''SkipProviderButton and multiple providers are mutually exclusive''
        \<notin> set (fst (validateProviders vac w o')))"
proof (intro conjI impI)
  assume "SkipProviderButton o' \<and> length (Providers o') > 1"
  then show "''SkipProviderButton and multiple providers are mutually exclusive''
        \<in> set (fst (validateProviders vac w o'))"
    unfolding validateProviders_msgs by simp
next
  assume a: "SkipProviderButton o' \<and> length (Providers o') \<le> 1
       \<and> (\<forall>ac. ''SkipProviderButton and multiple providers are mutually exclusive''
                  \<notin> set (fst (vac ac)))"
  then have "''SkipProviderButton and multiple providers are mutually exclusive''
           \<notin> set (fst (validateProvider vac w p ids))" for p ids
    using skip_not_validateProvider[of vac p w ids] by simp
  with a show "''SkipProviderButton and multiple providers are mutually exclusive''
        \<notin> set (fst (validateProviders vac w o'))"
    unfolding validateProviders_msgs by auto
qed

theorem skip_button_with_several_providers_witness:
  "''SkipProviderButton and multiple providers are mutually exclusive''
     \<in> set (fst (validateProviders no_auth_messages bare_world
         \<lparr>Providers = [zero_provider\<lparr>ID := ''a'', ClientID := ''x''\<rparr>,
                       zero_provider\<lparr>ID := ''b'', ClientID := ''y''\<rparr>],
          SkipProviderButton = True\<rparr>))
   \<and> ''SkipProviderButton and multiple providers are mutually exclusive''
     \<notin> set (fst (validateProviders no_auth_messages bare_world
         \<lparr>Providers = [zero_provider\<lparr>ID := ''a'', ClientID := ''x''\<rparr>],
          SkipProviderButton = True\<rparr>))"
  using skip_button_with_several_providers[of
         "\<lparr>Providers = [zero_provider\<lparr>ID := ''a'', ClientID := ''x''\<rparr>,
                       zero_provider\<lparr>ID := ''b'', ClientID := ''y''\<rparr>],
          SkipProviderButton = True\<rparr>" no_auth_messages bare_world]
    skip_button_with_several_providers[of
         "\<lparr>Providers = [zero_provider\<lparr>ID := ''a'', ClientID := ''x''\<rparr>],
          SkipProviderButton = True\<rparr>" no_auth_messages bare_world]
  by (simp add: no_auth_messages_def)

text \<open>
  C10. Empty ids are stored in the registry like any other id. With \<open>k \<ge> 2\<close> providers
  whose id is empty (and an authentication validator that returns neither of the two
  messages itself), the result contains the empty-id message \<open>k\<close> times and the
  duplicate-id message of the empty id \<open>k - 1\<close> times. The messages of each such provider
  start with the empty-id message, followed by the duplicate-id message exactly when an
  earlier provider has an empty id too.
\<close>

theorem empty_ids_are_registered_too:
  assumes "\<forall>ac. ''provider has empty id: ids are required for all providers'' \<notin> set (fst (vac ac))
                \<and> duplicate_id_msg '''' \<notin> set (fst (vac ac))"
      and "2 \<le> length (filter (\<lambda>p. ID p = '''') (Providers o'))"
  shows "count_list (fst (validateProviders vac w o'))
             ''provider has empty id: ids are required for all providers''
           = length (filter (\<lambda>p. ID p = '''') (Providers o'))
       \<and> count_list (fst (validateProviders vac w o')) (duplicate_id_msg '''')
           = length (filter (\<lambda>p. ID p = '''') (Providers o')) - 1
       \<and> (\<forall>n<length (Providers o'). ID (Providers o' ! n) = '''' \<longrightarrow>
            (\<exists>rest. fst (validateProvider vac w (Providers o' ! n)
                            (registry_after Map.empty (take n (Providers o'))))
                 = (if \<exists>j<n. ID (Providers o' ! j) = ''''
                    then [''provider has empty id: ids are required for all providers'',
                          duplicate_id_msg '''']
                    else [''provider has empty id: ids are required for all providers''])
                   @ rest))"
proof -
  have z1: "count_list (fst (vac ac)) ''provider has empty id: ids are required for all providers'' = 0" for ac
    using assms(1) by (simp add: count_list_0_iff)
  have z2: "count_list (fst (vac ac)) (duplicate_id_msg '''') = 0" for ac
    using assms(1) by (simp add: count_list_0_iff)
  have a: "count_list (fst (validateProviders vac w o'))
             ''provider has empty id: ids are required for all providers''
           = length (filter (\<lambda>p. ID p = '''') (Providers o'))"
    unfolding validateProviders_count_empty_id by (simp add: z1)
  have b: "count_list (fst (validateProviders vac w o')) (duplicate_id_msg '''')
           = length (filter (\<lambda>p. ID p = '''') (Providers o')) - 1"
    unfolding validateProviders_count_dup by (simp add: z2)
  have c: "\<exists>rest. fst (validateProvider vac w (Providers o' ! n)
                            (registry_after Map.empty (take n (Providers o'))))
                 = (if \<exists>j<n. ID (Providers o' ! j) = ''''
                    then [''provider has empty id: ids are required for all providers'',
                          duplicate_id_msg '''']
                    else [''provider has empty id: ids are required for all providers''])
                   @ rest"
    if "n < length (Providers o')" and "ID (Providers o' ! n) = ''''" for n
    using that registry_after_empty_take[of n "Providers o'" "''''"]
    unfolding validateProvider_msgs by auto
  show ?thesis
    using a b c by blast
qed

theorem empty_ids_are_registered_too_witness:
  "count_list (fst (validateProviders no_auth_messages bare_world
        \<lparr>Providers = [zero_provider\<lparr>ClientID := ''x''\<rparr>,
                      zero_provider\<lparr>ID := ''b'', ClientID := ''y''\<rparr>,
                      zero_provider\<lparr>ClientID := ''z''\<rparr>],
         SkipProviderButton = False\<rparr>))
     ''provider has empty id: ids are required for all providers'' = 2
   \<and> count_list (fst (validateProviders no_auth_messages bare_world
        \<lparr>Providers = [zero_provider\<lparr>ClientID := ''x''\<rparr>,
                      zero_provider\<lparr>ID := ''b'', ClientID := ''y''\<rparr>,
                      zero_provider\<lparr>ClientID := ''z''\<rparr>],
         SkipProviderButton = False\<rparr>))
     (duplicate_id_msg '''') = 1
   \<and> fst (validateProviders no_auth_messages bare_world
        \<lparr>Providers = [zero_provider\<lparr>ClientID := ''x''\<rparr>,
                      zero_provider\<lparr>ID := ''b'', ClientID := ''y''\<rparr>,
                      zero_provider\<lparr>ClientID := ''z''\<rparr>],
         SkipProviderButton = False\<rparr>)
     = [''provider has empty id: ids are required for all providers'',
        ''provider has empty id: ids are required for all providers'',
        ''multiple providers found with id : provider ids must be unique'']"
  using empty_ids_are_registered_too[of no_auth_messages
        "\<lparr>Providers = [zero_provider\<lparr>ClientID := ''x''\<rparr>,
                      zero_provider\<lparr>ID := ''b'', ClientID := ''y''\<rparr>,
                      zero_provider\<lparr>ClientID := ''z''\<rparr>],
         SkipProviderButton = False\<rparr>" bare_world]
  by (simp add: no_auth_messages_def zero_provider_def validateProviders_def
        validateProvider_def duplicate_id_msg_def)

end
